theory Spec2Isabelle
  imports Main "HOL-Library.Sublist"
begin

section \<open>The vuexpress renderer (src/renderer/renderer.js)\<close>

text \<open>
  A shallow embedding of the \<^verbatim>\<open>Renderer\<close> class. Promises are modelled by their
  eventual outcome, object mutation by explicit state passing, the shared
  \<^verbatim>\<open>preCompile\<close> arrays by a store indexed by references, and the calls that leave
  the file (\<^verbatim>\<open>Vue.use\<close>, \<^verbatim>\<open>emit\<close>) by the trace of their arguments.
\<close>

subsection \<open>Values, errors and promise outcomes\<close>

text \<open>A state object and a component's data object: a mapping from property names.\<close>

type_synonym dict = "string \<rightharpoonup> int"

text \<open>
  Modelled from the spec: the error classes of \<^verbatim>\<open>../error\<close> are not among the
  sources. Section 7 names a base error, a compiler error and a render error; any
  other failure is a plain error. An error wraps the failure it is built from.
  Any error object can be given a \<^verbatim>\<open>component\<close> and a \<^verbatim>\<open>state\<close> property; a
  property never assigned reads \<^verbatim>\<open>undefined\<close>, which is \<open>None\<close>.
\<close>

datatype err_kind = PlainError | CompilerError | RenderError | BaseError

datatype err = Err (kind: err_kind) (message: string) (cause: "err option")
  (err_component: "string option") (err_state: "dict option")

text \<open>The settlement of a promise: fulfilled, rejected, or never settled.\<close>

datatype 'a outcome = Fulfilled 'a | Rejected err | Pending

text \<open>\<^verbatim>\<open>p.then(f)\<close> where \<open>f\<close> returns a promise (or a plain value, lifted).\<close>

fun then_promise :: "'a outcome \<Rightarrow> ('a \<Rightarrow> 'b outcome) \<Rightarrow> 'b outcome" where
  "then_promise (Fulfilled x) f = f x"
| "then_promise (Rejected e) f = Rejected e"
| "then_promise Pending f = Pending"

subsection \<open>The render context (lines 145-149 and 174-178)\<close>

text \<open>
  The \<^verbatim>\<open>options\<close> argument of a render call: \<^verbatim>\<open>url\<close> may be missing, \<^verbatim>\<open>plain\<close>
  is read for its truthiness.
\<close>

record render_options =
  url :: "string option"
  plain :: bool

record render_context =
  ctx_state :: dict
  ctx_url :: "string option"

text \<open>
  \<^verbatim>\<open>{ state: state || {}, url: options ? options.url : '/' }\<close>. An absent argument is
  \<open>None\<close>; an absent \<^verbatim>\<open>url\<close> property reads \<^verbatim>\<open>undefined\<close>, which is \<open>None\<close>.
\<close>

definition make_context :: "dict option \<Rightarrow> render_options option \<Rightarrow> render_context" where
  "make_context state opts =
     \<lparr> ctx_state = (case state of None \<Rightarrow> Map.empty | Some s \<Rightarrow> s),
       ctx_url = (case opts of None \<Rightarrow> Some ''/'' | Some ro \<Rightarrow> url ro) \<rparr>"

text \<open>\<^verbatim>\<open>const isPlain = options && options.plain\<close>, as a condition.\<close>

definition isPlain :: "render_options option \<Rightarrow> bool" where
  "isPlain opts = (case opts of None \<Rightarrow> False | Some ro \<Rightarrow> plain ro)"

subsection \<open>Template assembly (lines 207-229)\<close>

text \<open>
  The bundle returned by \<^verbatim>\<open>component.$meta().inject()\<close>: each part is read through
  its \<^verbatim>\<open>text()\<close> method; \<^verbatim>\<open>script.text\<close> is called once without an argument and
  once with \<^verbatim>\<open>{ body: true }\<close>, so it is a function of that flag.
\<close>

record meta_bundle =
  title_text :: string
  htmlAttrs_text :: string
  bodyAttrs_text :: string
  link_text :: string
  style_text :: string
  script_text :: "bool \<Rightarrow> string"
  noscript_text :: string
  meta_text :: string

record template =
  head :: string
  tail :: string

definition nl :: string where
  "nl = [CHR 0x0A]"

definition getTemplateHtml :: "meta_bundle \<Rightarrow> dict \<Rightarrow> dict \<Rightarrow> template" where
  "getTemplateHtml m state globalVars =
     \<lparr> head = ''<!DOCTYPE html>'' @ nl
          @ ''<html '' @ htmlAttrs_text m @ ''>'' @ nl
          @ ''<head>'' @ nl
          @ meta_text m @ nl
          @ title_text m @ nl
          @ link_text m @ nl
          @ style_text m @ nl
          @ script_text m False @ nl
          @ noscript_text m @ nl
          @ ''</head>'' @ nl
          @ ''<body '' @ bodyAttrs_text m @ ''>'' @ nl
          @ ''  '',
       tail = nl @ script_text m True @ ''</body>'' @ nl @ ''</html>'' \<rparr>"

subsection \<open>\<^verbatim>\<open>Promise.all\<close>\<close>

text \<open>
  \<^verbatim>\<open>Promise.all(ps)\<close> over \<open>n\<close> pending promises. The promises settle one at a time,
  in any order; a settlement names the position of its promise in the array.
  Each fulfilment value is stored at the position of its promise; the first
  rejection rejects the whole; once every position is filled the whole is
  fulfilled with the array of values. A promise settles once only, so a second
  settlement of a position is ignored. When the settlements run out before that,
  the promise stays pending.
\<close>

datatype 'a settle = Fulfil nat 'a | Reject nat err

fun promise_all_run :: "'a option list \<Rightarrow> 'a settle list \<Rightarrow> 'a list outcome" where
  "promise_all_run slots [] =
     (if None \<notin> set slots then Fulfilled (map the slots) else Pending)"
| "promise_all_run slots (Fulfil i v # evs) =
     (if None \<notin> set slots then Fulfilled (map the slots)
      else if i < length slots \<and> slots ! i = None
        then promise_all_run (slots[i := Some v]) evs
      else promise_all_run slots evs)"
| "promise_all_run slots (Reject i e # evs) =
     (if None \<notin> set slots then Fulfilled (map the slots)
      else if i < length slots \<and> slots ! i = None then Rejected e
      else promise_all_run slots evs)"

definition promise_all :: "nat \<Rightarrow> 'a settle list \<Rightarrow> 'a list outcome" where
  "promise_all n evs = promise_all_run (replicate n None) evs"

text \<open>
  \<^verbatim>\<open>Promise.all([p, q])\<close> on two promises of different types, given their outcomes.
  When both reject, the one that rejected first in time decides; the flag says
  whether that is the first.
\<close>

fun promise_all2 :: "bool \<Rightarrow> 'a outcome \<Rightarrow> 'b outcome \<Rightarrow> ('a \<times> 'b) outcome" where
  "promise_all2 first (Fulfilled a) (Fulfilled b) = Fulfilled (a, b)"
| "promise_all2 first (Rejected e1) (Rejected e2) = Rejected (if first then e1 else e2)"
| "promise_all2 first (Rejected e) (Fulfilled b) = Rejected e"
| "promise_all2 first (Rejected e) Pending = Rejected e"
| "promise_all2 first (Fulfilled a) (Rejected e) = Rejected e"
| "promise_all2 first Pending (Rejected e) = Rejected e"
| "promise_all2 first (Fulfilled a) Pending = Pending"
| "promise_all2 first Pending (Fulfilled b) = Pending"
| "promise_all2 first Pending Pending = Pending"

subsection \<open>Plugins, options and the state of the process\<close>

text \<open>
  A loaded module or plugin object: its identity, its \<^verbatim>\<open>default\<close> property when it
  has one, and whether it has an \<^verbatim>\<open>install\<close> property.
\<close>

datatype jsobj = JsObj (obj_id: nat) (default_export: "jsobj option") (has_install: bool)

text \<open>An entry of \<^verbatim>\<open>options.plugins\<close>: \<^verbatim>\<open>typeof plugin === 'string'\<close> or not.\<close>

datatype plugin = PluginPath string | PluginValue jsobj

text \<open>
  The argument handed to \<^verbatim>\<open>Vue.use\<close> (lines 79-83 and 95-99): \<^verbatim>\<open>plugin.default\<close> when
  \<^verbatim>\<open>plugin.default && plugin.default.install\<close>, the plugin itself otherwise.
\<close>

definition installable :: "jsobj \<Rightarrow> jsobj" where
  "installable p =
     (case default_export p of
        Some d \<Rightarrow> if has_install d then d else p
      | None \<Rightarrow> p)"

text \<open>
  Arrays are objects: \<^verbatim>\<open>options.preCompile\<close> holds a reference, and \<^verbatim>\<open>push\<close> changes
  the array every holder of the reference sees. The \<^verbatim>\<open>plugins\<close> array is only ever
  read, so it is kept by value.
\<close>

type_synonym ref = nat

record renderer_options =
  opt_head :: dict
  plugins :: "plugin list"
  preCompile :: ref
  globals :: dict

text \<open>The constructor's \<^verbatim>\<open>options\<close> argument: any property may be missing.\<close>

record renderer_option_params =
  param_head :: "dict option"
  param_plugins :: "plugin list option"
  param_preCompile :: "ref option"
  param_globals :: "dict option"

text \<open>
  \<^verbatim>\<open>defaultRendererOptions\<close> (lines 21-26), one object for the module: its
  \<^verbatim>\<open>preCompile\<close> array lives at a fixed reference.
\<close>

definition default_preCompile :: ref where
  "default_preCompile = 0"

definition defaultRendererOptions :: renderer_options where
  "defaultRendererOptions =
     \<lparr> opt_head = Map.empty, plugins = [], preCompile = default_preCompile,
       globals = Map.empty \<rparr>"

text \<open>\<^verbatim>\<open>Object.assign({}, defaultRendererOptions, options)\<close>: a shallow copy.\<close>

definition assign_options :: "renderer_option_params option \<Rightarrow> renderer_options" where
  "assign_options params =
     (case params of
        None \<Rightarrow> defaultRendererOptions
      | Some p \<Rightarrow>
          \<lparr> opt_head = (case param_head p of None \<Rightarrow> opt_head defaultRendererOptions | Some h \<Rightarrow> h),
            plugins = (case param_plugins p of None \<Rightarrow> plugins defaultRendererOptions | Some ps \<Rightarrow> ps),
            preCompile = (case param_preCompile p of None \<Rightarrow> preCompile defaultRendererOptions | Some a \<Rightarrow> a),
            globals = (case param_globals p of None \<Rightarrow> globals defaultRendererOptions | Some g \<Rightarrow> g) \<rparr>)"

text \<open>The shared runtime class: the module's one \<^verbatim>\<open>Vue\<close>.\<close>

datatype vue_class = Vue

text \<open>What \<^verbatim>\<open>this.emit\<close> was called with.\<close>

datatype event = Ready | ErrorEvent err

text \<open>
  The state of the process outside any one Renderer: the arrays behind the
  references, and the arguments of the calls of \<^verbatim>\<open>Vue.use\<close> on the shared class, in
  the order of the calls.
\<close>

record process =
  arrays :: "ref \<Rightarrow> string list"
  vue_uses :: "jsobj list"

text \<open>A Renderer instance: \<^verbatim>\<open>this.options\<close>, \<^verbatim>\<open>this.Vue\<close> and the events it emitted.\<close>

record renderer =
  options :: renderer_options
  this_Vue :: "vue_class option"
  emitted :: "event list"

text \<open>
  Modelled from the spec: the constructors of \<^verbatim>\<open>../error\<close> are not among the
  sources. The base error and the render error wrap the failure they are given.
\<close>

definition new_BaseError :: "err \<Rightarrow> err" where
  "new_BaseError e = Err BaseError (message e) (Some e) None None"

definition new_RenderError :: "err \<Rightarrow> err" where
  "new_RenderError e = Err RenderError (message e) (Some e) None None"

text \<open>\<^verbatim>\<open>error.component = path\<close> and \<^verbatim>\<open>error.state = state\<close>.\<close>

definition set_component :: "string \<Rightarrow> err \<Rightarrow> err" where
  "set_component path e = Err (kind e) (message e) (cause e) (Some path) (err_state e)"

definition set_state :: "dict option \<Rightarrow> err \<Rightarrow> err" where
  "set_state state e = Err (kind e) (message e) (cause e) (err_component e) state"

subsection \<open>Construction and \<^verbatim>\<open>init\<close> (lines 36-64)\<close>

text \<open>
  The two \<^verbatim>\<open>forEach\<close> loops over \<^verbatim>\<open>options.plugins\<close>. The one of \<^verbatim>\<open>init\<close> collects
  the string entries; the one of \<^verbatim>\<open>getVueClass\<close> collects them and calls \<^verbatim>\<open>Vue.use\<close>
  on every other entry as it meets it.
\<close>

fun needCompiledPlugin :: "plugin list \<Rightarrow> string list \<Rightarrow> string list" where
  "needCompiledPlugin [] need = need"
| "needCompiledPlugin (PluginPath p # ps) need = needCompiledPlugin ps (need @ [p])"
| "needCompiledPlugin (PluginValue v # ps) need = needCompiledPlugin ps need"

fun plugins_forEach :: "plugin list \<Rightarrow> string list \<times> jsobj list \<Rightarrow> string list \<times> jsobj list" where
  "plugins_forEach [] acc = acc"
| "plugins_forEach (PluginPath p # ps) (need, uses) = plugins_forEach ps (need @ [p], uses)"
| "plugins_forEach (PluginValue v # ps) (need, uses) =
     plugins_forEach ps (need, uses @ [installable v])"

text \<open>
  \<^verbatim>\<open>init\<close>, up to the call of \<^verbatim>\<open>compiler.load\<close>: the string plugins are pushed onto
  the array \<^verbatim>\<open>options.preCompile\<close> refers to.
\<close>

definition init_push :: "renderer \<Rightarrow> process \<Rightarrow> process" where
  "init_push r pr =
     (let a = preCompile (options r)
      in pr\<lparr>arrays := (arrays pr)(a := arrays pr a @ needCompiledPlugin (plugins (options r)) [])\<rparr>)"

text \<open>The \<^verbatim>\<open>then\<close> and \<^verbatim>\<open>catch\<close> callbacks of \<^verbatim>\<open>init\<close>, once the load has settled.\<close>

definition init_settle :: "unit outcome \<Rightarrow> renderer \<Rightarrow> renderer" where
  "init_settle loaded r =
     (case loaded of
        Fulfilled u \<Rightarrow> r\<lparr>emitted := emitted r @ [Ready]\<rparr>
      | Rejected e \<Rightarrow> r\<lparr>emitted := emitted r @ [ErrorEvent (new_BaseError e)]\<rparr>
      | Pending \<Rightarrow> r)"

text \<open>\<^verbatim>\<open>init\<close>; the compiler's \<^verbatim>\<open>load\<close> is a parameter, given the array it is called with.\<close>

definition init :: "(string list \<Rightarrow> unit outcome) \<Rightarrow> renderer \<times> process \<Rightarrow> renderer \<times> process" where
  "init load s =
     (case s of (r, pr) \<Rightarrow>
        (let pr' = init_push r pr
         in (init_settle (load (arrays pr' (preCompile (options r)))) r, pr')))"

definition new_Renderer ::
  "(string list \<Rightarrow> unit outcome) \<Rightarrow> renderer_option_params option \<Rightarrow> process \<Rightarrow> renderer \<times> process" where
  "new_Renderer load params pr =
     init load (\<lparr> options = assign_options params, this_Vue = None, emitted = [] \<rparr>, pr)"

subsection \<open>\<^verbatim>\<open>getVueClass\<close> (lines 72-104)\<close>

text \<open>
  The synchronous part of a call. The result says whether the promise it returns
  is already resolved with the class, or waits for the imports.
\<close>

definition getVueClass_begin :: "renderer \<times> process \<Rightarrow> vue_class option \<times> (renderer \<times> process)" where
  "getVueClass_begin s =
     (case s of (r, pr) \<Rightarrow>
        (case this_Vue r of
           Some c \<Rightarrow> (Some c, (r, pr))
         | None \<Rightarrow>
             (case plugins_forEach (plugins (options r)) ([], []) of
                (needCompiledPlugins, uses) \<Rightarrow>
                  (let pr' = pr\<lparr>vue_uses := vue_uses pr @ uses\<rparr>
                   in if length needCompiledPlugins = 0
                      then (Some Vue, (r\<lparr>this_Vue := Some Vue\<rparr>, pr'))
                      else (None, (r, pr'))))))"

text \<open>The \<^verbatim>\<open>then\<close> callback of a call that waited, given the imported modules.\<close>

definition getVueClass_then :: "jsobj list \<Rightarrow> renderer \<times> process \<Rightarrow> renderer \<times> process" where
  "getVueClass_then mods s =
     (case s of (r, pr) \<Rightarrow>
        (r\<lparr>this_Vue := Some Vue\<rparr>, pr\<lparr>vue_uses := vue_uses pr @ map installable mods\<rparr>))"

text \<open>
  One call run to its end with nothing in between: the settlements of its
  \<^verbatim>\<open>compiler.import\<close> promises are given in the order in which they happen.
\<close>

definition getVueClass ::
  "jsobj settle list \<Rightarrow> renderer \<times> process \<Rightarrow> vue_class outcome \<times> (renderer \<times> process)" where
  "getVueClass imports s =
     (case getVueClass_begin s of
        (Some c, s') \<Rightarrow> (Fulfilled c, s')
      | (None, s') \<Rightarrow>
          (case promise_all (length (fst (plugins_forEach (plugins (options (fst s))) ([], [])))) imports of
             Fulfilled mods \<Rightarrow> (Fulfilled Vue, getVueClass_then mods s')
           | Rejected e \<Rightarrow> (Rejected e, s')
           | Pending \<Rightarrow> (Pending, s')))"

text \<open>
  Several calls in one process: each step is the synchronous part of a new call,
  or the \<^verbatim>\<open>then\<close> callback of a call that waited.
\<close>

datatype vue_step = Call | Resume "jsobj list"

fun run_steps :: "vue_step list \<Rightarrow> renderer \<times> process \<Rightarrow> renderer \<times> process" where
  "run_steps [] s = s"
| "run_steps (Call # steps) s = run_steps steps (snd (getVueClass_begin s))"
| "run_steps (Resume mods # steps) s = run_steps steps (getVueClass_then mods s)"

subsection \<open>\<^verbatim>\<open>getComponent\<close> (lines 114-133)\<close>

text \<open>
  What calling a definition's \<^verbatim>\<open>asyncData()\<close> does: it throws, or it returns a
  promise with its own outcome.
\<close>

datatype async_result = AsyncThrows err | AsyncReturns "dict outcome"

text \<open>A component definition: the options the renderer reads.\<close>

record component_def =
  def_name :: string
  asyncData :: "async_result option"
  data :: dict

text \<open>
  What \<^verbatim>\<open>compiler.import(path)\<close> resolves to: the definition itself, or an object
  whose \<^verbatim>\<open>default\<close> property holds it.
\<close>

record component_module =
  module_default :: "component_def option"
  module_self :: component_def

text \<open>\<^verbatim>\<open>object => object.default || object\<close>\<close>

definition unwrap_default :: "component_module \<Rightarrow> component_def" where
  "unwrap_default object =
     (case module_default object of Some d \<Rightarrow> d | None \<Rightarrow> module_self object)"

text \<open>
  What \<^verbatim>\<open>component.$options.data\<close> holds once the instance is built: an object, a
  function, or nothing.
\<close>

datatype data_option = DataObject dict | DataFunction | DataUndefined

text \<open>
  The own enumerable properties \<^verbatim>\<open>Object.assign\<close> copies from such a source: those
  of an object; a function has none, and \<^verbatim>\<open>undefined\<close> is skipped.
\<close>

definition own_properties :: "data_option \<Rightarrow> dict" where
  "own_properties v =
     (case v of DataObject m \<Rightarrow> m | DataFunction \<Rightarrow> Map.empty | DataUndefined \<Rightarrow> Map.empty)"

text \<open>The \<^verbatim>\<open>$options\<close> of an instance, as far as the renderer reads them.\<close>

record instance_options =
  options_asyncData :: "async_result option"
  options_data :: data_option

text \<open>
  A component instance: the definition and the \<^verbatim>\<open>$context\<close> it was built from, its
  \<^verbatim>\<open>$options\<close>, and its \<^verbatim>\<open>_data\<close>.
\<close>

record component =
  comp_definition :: component_def
  comp_options :: instance_options
  comp_context :: render_context
  comp_data :: dict

text \<open>
  A finite stream, as the events it produces: chunks, then the end or an error.
\<close>

datatype stream_event = Data string | EndOfStream | StreamError err

text \<open>
  What a render call meets outside the Renderer: the settlements of the plugin
  imports, what importing the component's path gives, which of the two promises
  of \<^verbatim>\<open>getComponent\<close> settles first, the constructor of the shared class, the two
  entry points of the render primitive (the string one calls back with an error
  or a result, or never), and the metadata vue-meta injects for an instance.

  The constructor, \<^verbatim>\<open>new VueClass(Object.assign({}, VueOptions, {$context: context}))\<close>,
  belongs to Vue and to the plugins installed on it. What it leaves in the
  \<^verbatim>\<open>$options\<close> and the \<^verbatim>\<open>_data\<close> of the instance is not decided in this file, so it
  is a parameter.
\<close>

record environment =
  plugin_imports :: "jsobj settle list"
  component_import :: "string \<Rightarrow> component_module outcome"
  vue_settles_first :: bool
  new_VueClass :: "component_def \<Rightarrow> render_context \<Rightarrow> component"
  string_renderer :: "component \<Rightarrow> string outcome"
  stream_renderer :: "component \<Rightarrow> stream_event list"
  inject :: "component \<Rightarrow> meta_bundle"

text \<open>
  The \<^verbatim>\<open>then\<close> callback of \<^verbatim>\<open>getComponent\<close> (lines 118-132). It reads
  \<^verbatim>\<open>component.$options.asyncData\<close> and \<^verbatim>\<open>component.$options.data\<close> from the instance
  the constructor returned. With an \<^verbatim>\<open>asyncData\<close> option it returns
  \<^verbatim>\<open>new Promise((resolve) => ...)\<close>: a throw inside the executor rejects that
  promise; \<^verbatim>\<open>resolve\<close> is called from the \<^verbatim>\<open>then\<close> of the data promise and from
  nowhere else, so when the data promise rejects or never settles, the new
  promise never settles. \<^verbatim>\<open>Object.assign({}, a, b)\<close> is the own properties of \<open>a\<close>
  with those of \<open>b\<close> over them.
\<close>

definition getComponent_then ::
  "environment \<Rightarrow> component_def \<Rightarrow> render_context \<Rightarrow> component outcome" where
  "getComponent_then env VueOptions context =
     (let component = new_VueClass env VueOptions context
      in case options_asyncData (comp_options component) of
           None \<Rightarrow> Fulfilled component
         | Some (AsyncThrows e) \<Rightarrow> Rejected e
         | Some (AsyncReturns (Fulfilled d)) \<Rightarrow>
             Fulfilled (component\<lparr>comp_data :=
               own_properties (options_data (comp_options component)) ++ d\<rparr>)
         | Some (AsyncReturns (Rejected e)) \<Rightarrow> Pending
         | Some (AsyncReturns Pending) \<Rightarrow> Pending)"

definition getComponent ::
  "environment \<Rightarrow> string \<Rightarrow> render_context \<Rightarrow> renderer \<times> process
     \<Rightarrow> component outcome \<times> (renderer \<times> process)" where
  "getComponent env path context s =
     (case getVueClass (plugin_imports env) s of
        (VueClass, s') \<Rightarrow>
          (let VueOptions = then_promise (component_import env path)
                              (\<lambda>object. Fulfilled (unwrap_default object))
           in (then_promise (promise_all2 (vue_settles_first env) VueClass VueOptions)
                 (\<lambda>(c, d). getComponent_then env d context),
               s')))"

subsection \<open>\<^verbatim>\<open>renderToString\<close> (lines 173-196)\<close>

definition renderToString ::
  "environment \<Rightarrow> string \<Rightarrow> dict option \<Rightarrow> render_options option \<Rightarrow> renderer \<times> process
     \<Rightarrow> string outcome \<times> (renderer \<times> process)" where
  "renderToString env path state opts s =
     (let context = make_context state opts
      in case getComponent env path context s of
           (got, s') \<Rightarrow>
             (then_promise got
                (\<lambda>component.
                   case string_renderer env component of
                     Rejected e \<Rightarrow> Rejected (set_component path e)
                   | Fulfilled result \<Rightarrow>
                       if isPlain opts then Fulfilled result
                       else (let indexHtml = getTemplateHtml (inject env component)
                                   (ctx_state context) (globals (options (fst s')))
                             in Fulfilled (head indexHtml @ result @ tail indexHtml))
                   | Pending \<Rightarrow> Pending),
              s'))"

subsection \<open>The stream transform (\<^verbatim>\<open>./transform\<close>)\<close>

text \<open>
  Modelled from the spec: \<^verbatim>\<open>./transform\<close> is not among the sources. Section 4.4 and
  the design notes describe a machine with the states before the first chunk,
  streaming and done: the head fragment is emitted before the first chunk is
  passed through, every chunk passes through unchanged, a clean end of the
  upstream emits the tail fragment and then ends the output, and an upstream
  error is forwarded with no tail fragment.
\<close>

datatype transform_state = BeforeFirstChunk | Streaming | Done

fun transform_step ::
  "string \<Rightarrow> string \<Rightarrow> transform_state \<Rightarrow> stream_event \<Rightarrow> transform_state \<times> stream_event list" where
  "transform_step h t Done ev = (Done, [])"
| "transform_step h t BeforeFirstChunk (Data c) = (Streaming, [Data h, Data c])"
| "transform_step h t Streaming (Data c) = (Streaming, [Data c])"
| "transform_step h t st EndOfStream = (Done, [Data t, EndOfStream])"
| "transform_step h t st (StreamError e) = (Done, [StreamError e])"

fun transform_run ::
  "string \<Rightarrow> string \<Rightarrow> transform_state \<Rightarrow> stream_event list \<Rightarrow> stream_event list" where
  "transform_run h t st [] = []"
| "transform_run h t st (ev # evs) =
     (case transform_step h t st ev of (st', out) \<Rightarrow> out @ transform_run h t st' evs)"

text \<open>\<^verbatim>\<open>upstream.pipe(new StreamTransform(head, tail))\<close>, as the events that come out.\<close>

definition StreamTransform :: "string \<Rightarrow> string \<Rightarrow> stream_event list \<Rightarrow> stream_event list" where
  "StreamTransform h t upstream = transform_run h t BeforeFirstChunk upstream"

subsection \<open>\<^verbatim>\<open>renderToStream\<close> (lines 144-171)\<close>

text \<open>The \<^verbatim>\<open>error\<close> the listener on the body stream builds (lines 154-161).\<close>

definition stream_error :: "string \<Rightarrow> dict option \<Rightarrow> err \<Rightarrow> err" where
  "stream_error path state e =
     (if kind e = CompilerError then e
      else set_state state (set_component path (new_RenderError e)))"

text \<open>The listener: \<^verbatim>\<open>this.emit('error', error)\<close>.\<close>

definition bodyStream_on_error :: "string \<Rightarrow> dict option \<Rightarrow> err \<Rightarrow> renderer \<Rightarrow> renderer" where
  "bodyStream_on_error path state e r =
     r\<lparr>emitted := emitted r @ [ErrorEvent (stream_error path state e)]\<rparr>"

definition renderToStream ::
  "environment \<Rightarrow> string \<Rightarrow> dict option \<Rightarrow> render_options option \<Rightarrow> renderer \<times> process
     \<Rightarrow> stream_event list outcome \<times> (renderer \<times> process)" where
  "renderToStream env path state opts s =
     (let context = make_context state opts
      in case getComponent env path context s of
           (got, s') \<Rightarrow>
             (then_promise got
                (\<lambda>component.
                   (let bodyStream = stream_renderer env component
                    in if isPlain opts then Fulfilled bodyStream
                       else (let template = getTemplateHtml (inject env component)
                                   (ctx_state context) (globals (options (fst s')))
                             in Fulfilled (StreamTransform (head template) (tail template) bodyStream)))),
              s'))"

text \<open>
  After the promise has resolved, the body stream produces its events; each
  \<^verbatim>\<open>error\<close> event runs the listener.
\<close>

fun bodyStream_events :: "string \<Rightarrow> dict option \<Rightarrow> stream_event list \<Rightarrow> renderer \<Rightarrow> renderer" where
  "bodyStream_events path state [] r = r"
| "bodyStream_events path state (StreamError e # evs) r =
     bodyStream_events path state evs (bodyStream_on_error path state e r)"
| "bodyStream_events path state (ev # evs) r = bodyStream_events path state evs r"

text \<open>
  A \<^verbatim>\<open>renderToStream\<close> call followed by its body stream running to its end: the
  promise the call returned, and the state left behind.
\<close>

definition renderToStream_run ::
  "environment \<Rightarrow> string \<Rightarrow> dict option \<Rightarrow> render_options option \<Rightarrow> renderer \<times> process
     \<Rightarrow> stream_event list outcome \<times> (renderer \<times> process)" where
  "renderToStream_run env path state opts s =
     (case renderToStream env path state opts s of
        (returned, (r, pr)) \<Rightarrow>
          (case fst (getComponent env path (make_context state opts) s) of
             Fulfilled component \<Rightarrow>
               (returned, (bodyStream_events path state (stream_renderer env component) r, pr))
           | Rejected e \<Rightarrow> (returned, (r, pr))
           | Pending \<Rightarrow> (returned, (r, pr))))"

subsection \<open>Reading the configured order\<close>

text \<open>The string entries and the loaded entries of a plugin list, each in the list's order.\<close>

fun string_entries :: "plugin list \<Rightarrow> string list" where
  "string_entries [] = []"
| "string_entries (PluginPath p # ps) = p # string_entries ps"
| "string_entries (PluginValue v # ps) = string_entries ps"

fun value_entries :: "plugin list \<Rightarrow> jsobj list" where
  "value_entries [] = []"
| "value_entries (PluginPath p # ps) = value_entries ps"
| "value_entries (PluginValue v # ps) = v # value_entries ps"

text \<open>The errors among the events of a stream, in order.\<close>

fun stream_errors :: "stream_event list \<Rightarrow> err list" where
  "stream_errors [] = []"
| "stream_errors (StreamError e # evs) = e # stream_errors evs"
| "stream_errors (ev # evs) = stream_errors evs"

subsection \<open>What an operation leaves alone\<close>

text \<open>
  The options object of the Renderer and every array in the store are the same
  before and after.
\<close>

definition options_untouched :: "renderer \<times> process \<Rightarrow> renderer \<times> process \<Rightarrow> bool" where
  "options_untouched s s' \<longleftrightarrow> options (fst s') = options (fst s) \<and> arrays (snd s') = arrays (snd s)"

subsection \<open>Example values\<close>

text \<open>
  A process with no array filled and nothing installed, a compiler whose \<^verbatim>\<open>load\<close>
  succeeds, three loaded modules, three component definitions (without
  \<^verbatim>\<open>asyncData\<close>, with one that resolves to \<^verbatim>\<open>{a: 1}\<close> over the static data
  \<^verbatim>\<open>{b: 2}\<close>, with one that rejects), and an environment that serves them. Its
  constructor builds an instance as Vue 2 does: the \<^verbatim>\<open>asyncData\<close> option is kept
  as it was given, the \<^verbatim>\<open>data\<close> option is replaced in \<^verbatim>\<open>$options\<close> by the function
  Vue merges it into, and \<^verbatim>\<open>_data\<close> starts as the static data.
\<close>

definition example_process :: process where
  "example_process = \<lparr> arrays = (\<lambda>a. []), vue_uses = [] \<rparr>"

definition example_load :: "string list \<Rightarrow> unit outcome" where
  "example_load paths = Fulfilled ()"

definition example_plugin :: jsobj where
  "example_plugin = JsObj 1 None True"

definition example_module_a :: jsobj where
  "example_module_a = JsObj 2 None True"

definition example_module_b :: jsobj where
  "example_module_b = JsObj 3 (Some (JsObj 4 None True)) False"

definition example_params :: "plugin list \<Rightarrow> renderer_option_params" where
  "example_params ps =
     \<lparr> param_head = None, param_plugins = Some ps, param_preCompile = None, param_globals = None \<rparr>"

definition example_error :: err where
  "example_error = Err PlainError ''boom'' None None None"

definition example_meta :: meta_bundle where
  "example_meta =
     \<lparr> title_text = ''<title>t</title>'', htmlAttrs_text = ''lang=en'', bodyAttrs_text = '''',
       link_text = '''', style_text = '''', script_text = (\<lambda>body. if body then ''<script></script>'' else ''''),
       noscript_text = '''', meta_text = '''' \<rparr>"

definition example_static :: component_def where
  "example_static = \<lparr> def_name = ''static'', asyncData = None, data = [''b'' \<mapsto> 2] \<rparr>"

definition example_async :: component_def where
  "example_async =
     \<lparr> def_name = ''async'', asyncData = Some (AsyncReturns (Fulfilled [''a'' \<mapsto> 1])),
       data = [''b'' \<mapsto> 2] \<rparr>"

definition example_rejecting :: component_def where
  "example_rejecting =
     \<lparr> def_name = ''rejecting'', asyncData = Some (AsyncReturns (Rejected example_error)),
       data = Map.empty \<rparr>"

definition example_import :: "string \<Rightarrow> component_module outcome" where
  "example_import path =
     (if path = ''static.vue'' then Fulfilled \<lparr> module_default = None, module_self = example_static \<rparr>
      else if path = ''async.vue''
        then Fulfilled \<lparr> module_default = Some example_async, module_self = example_static \<rparr>
      else if path = ''rejecting.vue''
        then Fulfilled \<lparr> module_default = None, module_self = example_rejecting \<rparr>
      else Rejected (Err CompilerError ''no such module'' None None None))"

definition example_new_VueClass :: "component_def \<Rightarrow> render_context \<Rightarrow> component" where
  "example_new_VueClass d context =
     \<lparr> comp_definition = d,
       comp_options = \<lparr> options_asyncData = asyncData d, options_data = DataFunction \<rparr>,
       comp_context = context,
       comp_data = data d \<rparr>"

definition example_env :: environment where
  "example_env =
     \<lparr> plugin_imports = [],
       component_import = example_import,
       vue_settles_first = True,
       new_VueClass = example_new_VueClass,
       string_renderer = (\<lambda>c. Fulfilled (''<div>'' @ def_name (comp_definition c) @ ''</div>'')),
       stream_renderer = (\<lambda>c. [Data ''<div>'', StreamError example_error]),
       inject = (\<lambda>c. example_meta) \<rparr>"

definition example_state :: "renderer \<times> process" where
  "example_state = new_Renderer example_load None example_process"

definition example_html :: string where
  "example_html =
     ''<!DOCTYPE html>'' @ nl @ ''<html lang=en>'' @ nl @ ''<head>'' @ nl @ nl
     @ ''<title>t</title>'' @ nl @ nl @ nl @ nl @ nl @ ''</head>'' @ nl @ ''<body >'' @ nl @ ''  ''
     @ ''<div>static</div>''
     @ nl @ ''<script></script></body>'' @ nl @ ''</html>''"

section \<open>Properties\<close>

subsection \<open>The loops and \<^verbatim>\<open>Promise.all\<close>\<close>

text \<open>
  Each \<^verbatim>\<open>forEach\<close> loop yields the string entries, and the values handed to
  \<^verbatim>\<open>Vue.use\<close>, in the order of the configured list. \<^verbatim>\<open>Promise.all\<close> fulfils with
  the values at the positions of their promises, whatever the order in which
  the promises were fulfilled.
\<close>

lemma plugins_forEach_eq:
  "plugins_forEach ps (need, uses) =
     (need @ string_entries ps, uses @ map installable (value_entries ps))"
  by (induction ps arbitrary: need uses rule: string_entries.induct) simp_all

lemma needCompiledPlugin_eq:
  "needCompiledPlugin ps need = need @ string_entries ps"
  by (induction ps arbitrary: need rule: string_entries.induct) simp_all

lemma promise_all_run_any_order:
  assumes "distinct order" and "length slots = n" and "set order \<subseteq> {..<n}"
    and "\<And>i. i < n \<Longrightarrow> slots ! i = (if i \<in> set order then None else Some (f i))"
  shows "promise_all_run slots (map (\<lambda>i. Fulfil i (f i)) order) = Fulfilled (map f [0..<n])"
  using assms
proof (induction order arbitrary: slots)
  case Nil
  then have all: "\<And>i. i < n \<Longrightarrow> slots ! i = Some (f i)" by simp
  have "None \<notin> set slots"
  proof
    assume "None \<in> set slots"
    then obtain i where "i < length slots" "slots ! i = None"
      by (auto simp: in_set_conv_nth)
    with all Nil.prems(2) show False by simp
  qed
  moreover have "map the slots = map f [0..<n]"
    using all Nil.prems(2) by (intro nth_equalityI) simp_all
  ultimately show ?case by simp
next
  case (Cons i order)
  from Cons.prems have i: "i < n" "i \<notin> set order" by auto
  with Cons.prems have none: "slots ! i = None" by simp
  with i Cons.prems(2) have "None \<in> set slots"
    by (metis nth_mem)
  moreover have "promise_all_run (slots[i := Some (f i)]) (map (\<lambda>i. Fulfil i (f i)) order)
      = Fulfilled (map f [0..<n])"
  proof (rule Cons.IH)
    show "distinct order" using Cons.prems by simp
    show "length (slots[i := Some (f i)]) = n" using Cons.prems by simp
    show "set order \<subseteq> {..<n}" using Cons.prems by simp
    fix j assume j: "j < n"
    show "slots[i := Some (f i)] ! j = (if j \<in> set order then None else Some (f j))"
      using j i Cons.prems(2) Cons.prems(4)[OF j] by (cases "j = i") auto
  qed
  ultimately show ?case using i none Cons.prems(2) by simp
qed

lemma promise_all_any_order:
  assumes "distinct order" and "set order = {..<n}"
  shows "promise_all n (map (\<lambda>i. Fulfil i (f i)) order) = Fulfilled (map f [0..<n])"
  unfolding promise_all_def
  using assms by (intro promise_all_run_any_order) auto

lemmas example_defs = example_process_def example_load_def example_plugin_def example_module_a_def
  example_module_b_def example_params_def example_error_def example_meta_def example_static_def
  example_async_def example_rejecting_def example_import_def example_new_VueClass_def
  example_env_def

lemmas renderer_defs = new_Renderer_def init_def init_push_def init_settle_def assign_options_def
  defaultRendererOptions_def default_preCompile_def getVueClass_def getVueClass_begin_def
  getVueClass_then_def installable_def promise_all_def getComponent_def getComponent_then_def
  own_properties_def unwrap_default_def make_context_def isPlain_def

lemma example_state_eq:
  "example_state = (\<lparr> options = defaultRendererOptions, this_Vue = None, emitted = [Ready] \<rparr>,
     example_process)"
  by (simp add: example_state_def example_defs renderer_defs fun_upd_idem)

subsection \<open>The memo of \<^verbatim>\<open>getVueClass\<close>\<close>

lemma getVueClass_begin_set:
  "this_Vue r = Some c \<Longrightarrow> getVueClass_begin (r, pr) = (Some c, (r, pr))"
  by (simp add: getVueClass_begin_def)

lemma getVueClass_begin_unset:
  "this_Vue r = None \<Longrightarrow> string_entries (plugins (options r)) \<noteq> [] \<Longrightarrow>
   getVueClass_begin (r, pr) =
     (None, (r, pr\<lparr>vue_uses := vue_uses pr @ map installable (value_entries (plugins (options r)))\<rparr>))"
  by (simp add: getVueClass_begin_def plugins_forEach_eq)

lemma getVueClass_begin_no_paths:
  "this_Vue r = None \<Longrightarrow> string_entries (plugins (options r)) = [] \<Longrightarrow>
   getVueClass_begin (r, pr) =
     (Some Vue, (r\<lparr>this_Vue := Some Vue\<rparr>,
        pr\<lparr>vue_uses := vue_uses pr @ map installable (value_entries (plugins (options r)))\<rparr>))"
  by (simp add: getVueClass_begin_def plugins_forEach_eq)

lemma run_steps_append:
  "run_steps (xs @ ys) s = run_steps ys (run_steps xs s)"
  by (induction xs s rule: run_steps.induct) simp_all

lemma run_calls_set:
  "this_Vue r = Some c \<Longrightarrow> run_steps (replicate k Call) (r, pr) = (r, pr)"
  by (induction k) (simp_all add: getVueClass_begin_set)

lemma step_keeps_Vue:
  "this_Vue (fst s) \<noteq> None \<Longrightarrow> this_Vue (fst (snd (getVueClass_begin s))) \<noteq> None"
  "this_Vue (fst (getVueClass_then mods s)) \<noteq> None"
  by (cases s; auto simp: getVueClass_begin_def getVueClass_then_def)+

lemma run_steps_keeps_Vue:
  "this_Vue (fst s) \<noteq> None \<Longrightarrow> this_Vue (fst (run_steps steps s)) \<noteq> None"
  by (induction steps s rule: run_steps.induct) (simp_all add: step_keeps_Vue)

lemma run_calls_unset:
  assumes "this_Vue r = None" and "string_entries (plugins (options r)) \<noteq> []"
  shows "run_steps (replicate k Call) (r, pr) =
     (r, pr\<lparr>vue_uses := vue_uses pr
            @ concat (replicate k (map installable (value_entries (plugins (options r)))))\<rparr>)"
  using assms
proof (induction k arbitrary: pr)
  case 0
  then show ?case by simp
next
  case (Suc k)
  show ?case
    using Suc.prems Suc.IH[OF Suc.prems, of "pr\<lparr>vue_uses := vue_uses pr @ map installable (value_entries (plugins (options r)))\<rparr>"]
    by (simp add: getVueClass_begin_unset)
qed

lemma run_resumes:
  "run_steps (replicate k (Resume mods)) (r, pr) =
     ((if k = 0 then r else r\<lparr>this_Vue := Some Vue\<rparr>),
      pr\<lparr>vue_uses := vue_uses pr @ concat (replicate k (map installable mods))\<rparr>)"
proof (induction k arbitrary: r pr)
  case 0
  then show ?case by simp
next
  case (Suc k)
  show ?case
    using Suc.IH[of "r\<lparr>this_Vue := Some Vue\<rparr>" "pr\<lparr>vue_uses := vue_uses pr @ map installable mods\<rparr>"]
    by (simp add: getVueClass_then_def)
qed

lemma getVueClass_resolved:
  assumes "getVueClass settled (r, pr) = (Fulfilled c, s')"
  shows "c = Vue \<and> this_Vue (fst s') = Some Vue"
  using assms
  by (cases c) (auto simp: getVueClass_def getVueClass_begin_def getVueClass_then_def plugins_forEach_eq Let_def
      split: option.splits if_splits outcome.splits prod.splits)

text \<open>
  C1, as the code has it. Once \<^verbatim>\<open>this.Vue\<close> is set, a call of \<^verbatim>\<open>getVueClass\<close>
  returns the memoized class at once, calls \<^verbatim>\<open>Vue.use\<close> for nothing and changes
  nothing, however often it is repeated, and \<^verbatim>\<open>this.Vue\<close> stays set through any
  further calls and callbacks. Every resolution yields the one shared class and
  leaves \<^verbatim>\<open>this.Vue\<close> set. With no string entry configured the first call sets
  \<^verbatim>\<open>this.Vue\<close> before it returns, so any number of calls hands each loaded
  plugin to \<^verbatim>\<open>Vue.use\<close> once. With a string entry configured the memo is the
  class and not the promise: each call made while \<^verbatim>\<open>this.Vue\<close> is unset runs its
  own installation pass, so \<open>k\<close> such calls and their \<open>k\<close> callbacks call
  \<^verbatim>\<open>Vue.use\<close> \<open>k\<close> times on every loaded plugin and \<open>k\<close> times on every imported
  module.
\<close>

theorem getVueClass_memoized:
  "(this_Vue r = Some c \<longrightarrow>
      getVueClass settled (r, pr) = (Fulfilled c, (r, pr))
      \<and> run_steps (replicate k Call) (r, pr) = (r, pr)
      \<and> this_Vue (fst (run_steps steps (r, pr))) = Some Vue)
   \<and> (getVueClass settled (r, pr) = (Fulfilled c', s') \<longrightarrow> c' = Vue \<and> this_Vue (fst s') = Some Vue)
   \<and> (this_Vue r = None \<and> string_entries (plugins (options r)) = [] \<longrightarrow>
        run_steps (replicate (Suc k) Call) (r, pr) =
          (r\<lparr>this_Vue := Some Vue\<rparr>,
           pr\<lparr>vue_uses := vue_uses pr @ map installable (value_entries (plugins (options r)))\<rparr>))
   \<and> (this_Vue r = None \<and> string_entries (plugins (options r)) \<noteq> [] \<longrightarrow>
        vue_uses (snd (run_steps (replicate k Call @ replicate k (Resume mods)) (r, pr))) =
          vue_uses pr
          @ concat (replicate k (map installable (value_entries (plugins (options r)))))
          @ concat (replicate k (map installable mods)))"
proof (intro conjI impI)
  assume memo: "this_Vue r = Some c"
  then show "getVueClass settled (r, pr) = (Fulfilled c, (r, pr))"
    by (simp add: getVueClass_def getVueClass_begin_set)
  from memo show "run_steps (replicate k Call) (r, pr) = (r, pr)"
    by (rule run_calls_set)
  from memo have "this_Vue (fst (run_steps steps (r, pr))) \<noteq> None"
    by (intro run_steps_keeps_Vue) simp
  then show "this_Vue (fst (run_steps steps (r, pr))) = Some Vue"
    by (cases "this_Vue (fst (run_steps steps (r, pr)))") (auto intro: vue_class.exhaust)
next
  assume "getVueClass settled (r, pr) = (Fulfilled c', s')"
  then have "c' = Vue \<and> this_Vue (fst s') = Some Vue" by (rule getVueClass_resolved)
  then show "c' = Vue" and "this_Vue (fst s') = Some Vue" by simp_all
next
  assume "this_Vue r = None \<and> string_entries (plugins (options r)) = []"
  then have "getVueClass_begin (r, pr) =
      (Some Vue, (r\<lparr>this_Vue := Some Vue\<rparr>,
         pr\<lparr>vue_uses := vue_uses pr @ map installable (value_entries (plugins (options r)))\<rparr>))"
    by (simp add: getVueClass_begin_no_paths)
  then show "run_steps (replicate (Suc k) Call) (r, pr) =
          (r\<lparr>this_Vue := Some Vue\<rparr>,
           pr\<lparr>vue_uses := vue_uses pr @ map installable (value_entries (plugins (options r)))\<rparr>)"
    by (simp add: run_calls_set)
next
  assume "this_Vue r = None \<and> string_entries (plugins (options r)) \<noteq> []"
  then show "vue_uses (snd (run_steps (replicate k Call @ replicate k (Resume mods)) (r, pr))) =
          vue_uses pr
          @ concat (replicate k (map installable (value_entries (plugins (options r)))))
          @ concat (replicate k (map installable mods))"
    by (simp add: run_steps_append run_calls_unset run_resumes)
qed

text \<open>
  The theorem at a Renderer with one loaded plugin (a second call after the first
  has resolved, and three calls in a row), and at a Renderer with a loaded plugin
  and a string entry (two calls before either callback).
\<close>

theorem getVueClass_memoized_witness:
  "getVueClass [] (snd (getVueClass [] (new_Renderer example_load
        (Some (example_params [PluginValue example_plugin])) example_process)))
     = (Fulfilled Vue,
        \<lparr> options = assign_options (Some (example_params [PluginValue example_plugin])),
          this_Vue = Some Vue, emitted = [Ready] \<rparr>,
        \<lparr> arrays = (\<lambda>a. []), vue_uses = [example_plugin] \<rparr>)
   \<and> run_steps (replicate 3 Call) (new_Renderer example_load
        (Some (example_params [PluginValue example_plugin])) example_process)
     = (\<lparr> options = assign_options (Some (example_params [PluginValue example_plugin])),
          this_Vue = Some Vue, emitted = [Ready] \<rparr>,
        \<lparr> arrays = (\<lambda>a. []), vue_uses = [example_plugin] \<rparr>)
   \<and> vue_uses (snd (run_steps (replicate 2 Call @ replicate 2 (Resume [example_module_a]))
        (new_Renderer example_load (Some (example_params [PluginValue example_plugin, PluginPath ''p'']))
           example_process)))
     = [example_plugin, example_plugin, example_module_a, example_module_a]"
proof -
  let ?unset = "\<lparr> options = assign_options (Some (example_params [PluginValue example_plugin])),
          this_Vue = None, emitted = [Ready] \<rparr>"
  let ?fresh = "\<lparr> arrays = (\<lambda>a. []), vue_uses = [] \<rparr>"
  let ?r = "\<lparr> options = assign_options (Some (example_params [PluginValue example_plugin])),
          this_Vue = Some Vue, emitted = [Ready] \<rparr>"
  let ?pr = "\<lparr> arrays = (\<lambda>a. []), vue_uses = [example_plugin] \<rparr>"
  let ?waiting = "\<lparr> options = assign_options (Some (example_params [PluginValue example_plugin, PluginPath ''p''])),
          this_Vue = None, emitted = [Ready] \<rparr>"
  let ?pushed = "\<lparr> arrays = (\<lambda>a. [])(default_preCompile := [''p'']), vue_uses = [] \<rparr>"
  have built: "new_Renderer example_load (Some (example_params [PluginValue example_plugin]))
      example_process = (?unset, ?fresh)"
    by (simp add: example_defs renderer_defs fun_upd_idem)
  have first: "getVueClass [] (?unset, ?fresh) = (Fulfilled Vue, (?r, ?pr))"
    by (simp add: example_defs renderer_defs)
  have second: "new_Renderer example_load (Some (example_params [PluginValue example_plugin, PluginPath ''p'']))
           example_process = (?waiting, ?pushed)"
    by (simp add: example_defs renderer_defs)
  have memo: "this_Vue (fst (?r, ?pr)) = Some Vue"
    using getVueClass_memoized [where r = ?unset and pr = ?fresh and settled = "[]" and c' = Vue
        and s' = "(?r, ?pr)"] first
    by blast
  have a: "getVueClass [] (?r, ?pr) = (Fulfilled Vue, (?r, ?pr))"
    using getVueClass_memoized [of ?r Vue "[]" ?pr] memo by simp
  have b: "run_steps (replicate 3 Call) (?unset, ?fresh) = (?r, ?pr)"
    using getVueClass_memoized [where r = ?unset and pr = ?fresh and k = 2]
    by (simp add: assign_options_def example_params_def installable_def example_plugin_def
        eval_nat_numeral)
  have c: "vue_uses (snd (run_steps (replicate 2 Call @ replicate 2 (Resume [example_module_a])) (?waiting, ?pushed)))
      = [example_plugin, example_plugin, example_module_a, example_module_a]"
    using getVueClass_memoized [where r = ?waiting and pr = ?pushed and k = 2 and mods = "[example_module_a]"]
    by (simp add: assign_options_def example_params_def installable_def example_plugin_def
        example_module_a_def numeral_2_eq_2)
  show ?thesis
    using a b c by (simp only: built first second snd_conv)
qed

text \<open>
  C1 as stated fails: two calls made before the first resolution do not share
  one installation path. With a loaded plugin and the string entry \<^verbatim>\<open>'p'\<close>, the
  two calls and their two callbacks call \<^verbatim>\<open>Vue.use\<close> twice on the plugin and twice
  on the imported module.
\<close>

theorem getVueClass_two_calls_install_twice:
  "vue_uses (snd (run_steps [Call, Call, Resume [example_module_a], Resume [example_module_a]]
      (new_Renderer example_load (Some (example_params [PluginValue example_plugin, PluginPath ''p'']))
         example_process)))
   = [example_plugin, example_plugin, example_module_a, example_module_a]"
  by (simp add: example_defs renderer_defs)

subsection \<open>The stream transform\<close>

lemma transform_run_Done: "transform_run h t Done evs = []"
  by (induction evs) simp_all

lemma transform_run_Streaming_end:
  "transform_run h t Streaming (map Data cs @ EndOfStream # rest) = map Data cs @ [Data t, EndOfStream]"
  by (induction cs) (simp_all add: transform_run_Done)

lemma transform_run_Streaming_error:
  "transform_run h t Streaming (map Data cs @ StreamError e # rest) = map Data cs @ [StreamError e]"
  by (induction cs) (simp_all add: transform_run_Done)

text \<open>
  C2. For every head, tail and finite sequence of chunks: when the upstream ends,
  the transform emits the head before the first chunk, the chunks unchanged and
  in order, the tail, and then its own end; when the upstream errors, it emits
  the head before the first chunk, the chunks before the error, and the error,
  with no tail. The head is emitted on the first chunk, so an upstream without a
  chunk gets none. Nothing is emitted for what the upstream does afterwards.
\<close>

theorem StreamTransform_head_chunks_tail:
  "StreamTransform h t (map Data cs @ EndOfStream # rest) =
     (if cs = [] then [] else [Data h]) @ map Data cs @ [Data t, EndOfStream]
   \<and> StreamTransform h t (map Data cs @ StreamError e # rest) =
     (if cs = [] then [] else [Data h]) @ map Data cs @ [StreamError e]"
  by (cases cs)
    (simp_all add: StreamTransform_def transform_run_Done transform_run_Streaming_end
      transform_run_Streaming_error)

text \<open>
  The theorem at head \<^verbatim>\<open>"H"\<close> and tail \<^verbatim>\<open>"T"\<close>: chunks \<^verbatim>\<open>"x"\<close>, \<^verbatim>\<open>"y"\<close> and the
  end; chunk \<^verbatim>\<open>"x"\<close> and an error.
\<close>

theorem StreamTransform_head_chunks_tail_witness:
  "StreamTransform ''H'' ''T'' [Data ''x'', Data ''y'', EndOfStream] =
     [Data ''H'', Data ''x'', Data ''y'', Data ''T'', EndOfStream]
   \<and> StreamTransform ''H'' ''T'' [Data ''x'', StreamError (Err PlainError ''boom'' None None None)] =
     [Data ''H'', Data ''x'', StreamError (Err PlainError ''boom'' None None None)]"
  using StreamTransform_head_chunks_tail [where h = "''H''" and t = "''T''" and cs = "[''x'', ''y'']" and rest = "[]"]
    StreamTransform_head_chunks_tail [where h = "''H''" and t = "''T''" and cs = "[''x'']"
      and e = "Err PlainError ''boom'' None None None" and rest = "[]"]
  by simp

subsection \<open>Errors on the body stream\<close>

lemma bodyStream_events_eq:
  "bodyStream_events path state evs r =
     r\<lparr>emitted := emitted r @ map (\<lambda>e. ErrorEvent (stream_error path state e)) (stream_errors evs)\<rparr>"
  by (induction evs arbitrary: r rule: stream_errors.induct)
    (simp_all add: bodyStream_on_error_def)

lemma then_promise_Fulfilled:
  "then_promise p f = Fulfilled y \<Longrightarrow> \<exists>x. p = Fulfilled x \<and> f x = Fulfilled y"
  by (cases p) simp_all

lemma renderToStream_resolves:
  assumes "getComponent env path (make_context state opts) s = (Fulfilled component, s')"
  shows "fst (renderToStream env path state opts s) =
     Fulfilled (if isPlain opts then stream_renderer env component
        else StreamTransform
               (head (getTemplateHtml (inject env component) (ctx_state (make_context state opts))
                  (globals (options (fst s')))))
               (tail (getTemplateHtml (inject env component) (ctx_state (make_context state opts))
                  (globals (options (fst s')))))
               (stream_renderer env component))"
  using assms by (simp add: renderToStream_def Let_def)

text \<open>
  C3. When a \<^verbatim>\<open>renderToStream\<close> call has resolved, an error on the body stream
  does one thing: the Renderer emits one \<^verbatim>\<open>error\<close> event. A compiler error is the
  payload as it is; any other error is wrapped in a render error whose
  \<^verbatim>\<open>component\<close> is the path argument and whose \<^verbatim>\<open>state\<close> is the state argument.
  After the body stream has run to its end the promise is still resolved with
  the same stream, and the Renderer has emitted one event for each error and is
  otherwise as it was.
\<close>

theorem stream_error_emitted_not_rejected:
  assumes "renderToStream env path state opts s = (Fulfilled out, (r, pr))"
  shows "bodyStream_on_error path state e r =
           r\<lparr>emitted := emitted r @ [ErrorEvent (stream_error path state e)]\<rparr>
     \<and> (kind e = CompilerError \<longrightarrow> stream_error path state e = e)
     \<and> (kind e \<noteq> CompilerError \<longrightarrow>
          kind (stream_error path state e) = RenderError
          \<and> cause (stream_error path state e) = Some e
          \<and> err_component (stream_error path state e) = Some path
          \<and> err_state (stream_error path state e) = state)
     \<and> (\<exists>component.
          fst (getComponent env path (make_context state opts) s) = Fulfilled component
          \<and> renderToStream_run env path state opts s =
              (Fulfilled out,
               (r\<lparr>emitted := emitted r
                    @ map (\<lambda>e. ErrorEvent (stream_error path state e))
                        (stream_errors (stream_renderer env component))\<rparr>,
                pr)))"
proof -
  obtain got s' where g: "getComponent env path (make_context state opts) s = (got, s')"
    by (cases "getComponent env path (make_context state opts) s")
  with assms obtain component where c: "got = Fulfilled component" and s': "s' = (r, pr)"
    by (cases got) (auto simp: renderToStream_def Let_def)
  have "renderToStream_run env path state opts s =
      (Fulfilled out, (bodyStream_events path state (stream_renderer env component) r, pr))"
    using assms g c by (simp add: renderToStream_run_def)
  then show ?thesis
    using g c
    by (simp add: bodyStream_events_eq bodyStream_on_error_def stream_error_def
        set_state_def set_component_def new_RenderError_def)
qed

text \<open>
  The theorem at a plain call whose body stream produces a chunk and then an
  error that is not a compiler error, and at a compiler error.
\<close>

theorem stream_error_emitted_not_rejected_witness:
  "renderToStream_run example_env ''static.vue'' (Some [''n'' \<mapsto> 1])
       (Some \<lparr> url = Some ''/a'', plain = True \<rparr>) example_state
     = (Fulfilled [Data ''<div>'', StreamError example_error],
        \<lparr> options = defaultRendererOptions, this_Vue = Some Vue,
          emitted = [Ready, ErrorEvent (Err RenderError ''boom'' (Some example_error)
                       (Some ''static.vue'') (Some [''n'' \<mapsto> 1]))] \<rparr>,
        example_process)
   \<and> stream_error ''static.vue'' None (Err CompilerError ''syntax'' None None None)
       = Err CompilerError ''syntax'' None None None"
proof -
  let ?r = "\<lparr> options = defaultRendererOptions, this_Vue = Some Vue, emitted = [Ready] \<rparr>"
  have run: "renderToStream example_env ''static.vue'' (Some [''n'' \<mapsto> 1])
       (Some \<lparr> url = Some ''/a'', plain = True \<rparr>) example_state
     = (Fulfilled [Data ''<div>'', StreamError example_error], (?r, example_process))"
    by (simp add: example_state_eq renderToStream_def example_defs renderer_defs)
  from stream_error_emitted_not_rejected [OF run, of "Err CompilerError ''syntax'' None None None"]
  show ?thesis
    by (auto simp: example_env_def example_error_def stream_error_def set_state_def
        set_component_def new_RenderError_def)
qed

subsection \<open>The document of \<^verbatim>\<open>renderToString\<close>\<close>

lemma template_shape:
  "prefix ''<!DOCTYPE html>'' (head (getTemplateHtml m st g) @ body @ after)"
  "suffix ''</html>'' (before @ body @ tail (getTemplateHtml m st g))"
  by (simp_all add: getTemplateHtml_def suffix_def)

lemma renderToString_resolves:
  assumes "getComponent env path (make_context state opts) s = (Fulfilled component, s')"
    and "string_renderer env component = Fulfilled result"
  shows "fst (renderToString env path state opts s) =
     Fulfilled (if isPlain opts then result
        else head (getTemplateHtml (inject env component) (ctx_state (make_context state opts))
                 (globals (options (fst s'))))
             @ result
             @ tail (getTemplateHtml (inject env component) (ctx_state (make_context state opts))
                 (globals (options (fst s')))))"
  using assms by (simp add: renderToString_def Let_def)

lemma renderToString_render_fails:
  assumes "getComponent env path (make_context state opts) s = (Fulfilled component, s')"
    and "string_renderer env component = Rejected e"
  shows "fst (renderToString env path state opts s) = Rejected (set_component path e)"
  using assms by (simp add: renderToString_def Let_def)

text \<open>
  C4. When a \<^verbatim>\<open>renderToString\<close> call resolves, the component was resolved and
  the render primitive called back with a result. With \<^verbatim>\<open>plain\<close> set the
  resolved value is that result; otherwise it is the head fragment, the result
  and the tail fragment in this order, it begins with \<^verbatim>\<open><!DOCTYPE html>\<close> and it
  ends with \<^verbatim>\<open></html>\<close>.
\<close>

theorem renderToString_document:
  assumes "renderToString env path state opts s = (Fulfilled html, s')"
  shows "\<exists>component result.
     fst (getComponent env path (make_context state opts) s) = Fulfilled component
     \<and> string_renderer env component = Fulfilled result
     \<and> (if isPlain opts then html = result
        else html = head (getTemplateHtml (inject env component) (ctx_state (make_context state opts))
                      (globals (options (fst s))))
                 @ result
                 @ tail (getTemplateHtml (inject env component) (ctx_state (make_context state opts))
                      (globals (options (fst s))))
             \<and> prefix ''<!DOCTYPE html>'' html \<and> suffix ''</html>'' html)"
proof -
  obtain got s1 where g: "getComponent env path (make_context state opts) s = (got, s1)"
    by (cases "getComponent env path (make_context state opts) s")
  with assms obtain component where c: "got = Fulfilled component"
    by (cases got) (auto simp: renderToString_def Let_def)
  from assms g c obtain result where r: "string_renderer env component = Fulfilled result"
    by (cases "string_renderer env component") (auto simp: renderToString_def Let_def)
  show ?thesis
  proof (cases "isPlain opts")
    case True
    with assms g c r show ?thesis by (auto simp: renderToString_def Let_def)
  next
    case False
    with assms g c r have "html = head (getTemplateHtml (inject env component) (ctx_state (make_context state opts))
                      (globals (options (fst s1))))
                 @ result
                 @ tail (getTemplateHtml (inject env component) (ctx_state (make_context state opts))
                      (globals (options (fst s1))))"
      by (auto simp: renderToString_def Let_def)
    then have "html = head (getTemplateHtml (inject env component) (ctx_state (make_context state opts))
                      (globals (options (fst s))))
                 @ result
                 @ tail (getTemplateHtml (inject env component) (ctx_state (make_context state opts))
                      (globals (options (fst s))))"
      by (simp add: getTemplateHtml_def)
    with False g c r show ?thesis
      using template_shape by auto
  qed
qed

text \<open>
  The theorem at a component without \<^verbatim>\<open>asyncData\<close>, rendered once without
  options and once with \<^verbatim>\<open>plain\<close> set.
\<close>

theorem renderToString_document_witness:
  "fst (renderToString example_env ''static.vue'' None None example_state) = Fulfilled example_html
   \<and> prefix ''<!DOCTYPE html>'' example_html \<and> suffix ''</html>'' example_html
   \<and> fst (renderToString example_env ''static.vue'' None (Some \<lparr> url = Some ''/a'', plain = True \<rparr>)
        example_state) = Fulfilled ''<div>static</div>''"
proof -
  obtain s1 where run: "renderToString example_env ''static.vue'' None None example_state
      = (Fulfilled example_html, s1)"
    by (simp add: example_state_eq example_html_def renderToString_def getTemplateHtml_def
        example_defs renderer_defs)
  obtain s2 where plain: "renderToString example_env ''static.vue'' None
      (Some \<lparr> url = Some ''/a'', plain = True \<rparr>) example_state = (Fulfilled ''<div>static</div>'', s2)"
    by (simp add: example_state_eq renderToString_def example_defs renderer_defs)
  from renderToString_document [OF run] renderToString_document [OF plain]
  show ?thesis using run plain by (auto simp: isPlain_def)
qed

subsection \<open>Asynchronous data\<close>

text \<open>
  What \<^verbatim>\<open>getComponent\<close> resolves with once the class and the component's module
  are resolved, for any constructor. When the instance's \<^verbatim>\<open>asyncData\<close> promise
  resolves to a mapping, the instance's data is the own properties of its
  \<^verbatim>\<open>$options.data\<close> with the mapping over them, a key of the mapping taking the
  mapping's value; without an \<^verbatim>\<open>asyncData\<close> option the instance is returned as it
  was constructed.
\<close>

lemma getComponent_assigns_async_data:
  assumes "getVueClass (plugin_imports env) s = (Fulfilled Vue, s')"
    and "component_import env path = Fulfilled object"
    and "new_VueClass env (unwrap_default object) context = component"
    and "options_asyncData (comp_options component) = Some (AsyncReturns (Fulfilled d))"
  shows "getComponent env path context s =
     (Fulfilled (component\<lparr>comp_data := own_properties (options_data (comp_options component)) ++ d\<rparr>), s')"
    and "(own_properties (options_data (comp_options component)) ++ d) k =
     (case d k of Some v \<Rightarrow> Some v | None \<Rightarrow> own_properties (options_data (comp_options component)) k)"
  using assms by (auto simp: getComponent_def getComponent_then_def map_add_def Let_def)

lemma getComponent_without_asyncData:
  assumes "getVueClass (plugin_imports env) s = (Fulfilled Vue, s')"
    and "component_import env path = Fulfilled object"
    and "options_asyncData (comp_options (new_VueClass env (unwrap_default object) context)) = None"
  shows "getComponent env path context s =
     (Fulfilled (new_VueClass env (unwrap_default object) context), s')"
  using assms by (simp add: getComponent_def getComponent_then_def Let_def)

lemma own_properties_cases:
  "own_properties (DataObject m) ++ d = m ++ d"
  "own_properties DataFunction ++ d = d"
  "own_properties DataUndefined ++ d = d"
  by (simp_all add: own_properties_def)

text \<open>
  C5 fails on the code. Line 125 merges the resolved mapping over
  \<^verbatim>\<open>component.$options.data\<close>, read from the instance. In the instance Vue builds
  that is the merged data function, not the static data object, and a function
  has no property to copy: with the static data \<^verbatim>\<open>{b: 2}\<close> and an \<^verbatim>\<open>asyncData\<close>
  that resolves to \<^verbatim>\<open>{a: 1}\<close> the instance's data is \<^verbatim>\<open>{a: 1}\<close>, not
  \<^verbatim>\<open>{a: 1, b: 2}\<close>.
\<close>

theorem asyncData_result_replaces_static_data:
  "fst (getComponent example_env ''async.vue'' (make_context None None) example_state)
     = Fulfilled ((example_new_VueClass example_async (make_context None None))
         \<lparr>comp_data := [''a'' \<mapsto> 1]\<rparr>)
   \<and> data example_async = [''b'' \<mapsto> 2]
   \<and> [''a'' \<mapsto> 1] \<noteq> [''a'' \<mapsto> 1, ''b'' \<mapsto> (2::int)]"
proof -
  have "[''a'' \<mapsto> 1] ''b'' \<noteq> [''a'' \<mapsto> 1, ''b'' \<mapsto> (2::int)] ''b''"
    by simp
  then have "[''a'' \<mapsto> 1] \<noteq> [''a'' \<mapsto> 1, ''b'' \<mapsto> (2::int)]"
    by metis
  moreover have "fst (getComponent example_env ''async.vue'' (make_context None None) example_state)
     = Fulfilled ((example_new_VueClass example_async (make_context None None))
         \<lparr>comp_data := [''a'' \<mapsto> 1]\<rparr>)"
    by (simp add: example_state_eq example_defs renderer_defs)
  moreover have "data example_async = [''b'' \<mapsto> 2]"
    by (simp add: example_async_def)
  ultimately show ?thesis by simp
qed

text \<open>
  What \<^verbatim>\<open>getComponent\<close> does with each way \<^verbatim>\<open>asyncData\<close> can fail: a throw inside
  the executor rejects, a rejected data promise leaves the promise unsettled.
\<close>

lemma getComponent_then_asyncData_throws:
  "options_asyncData (comp_options (new_VueClass env d context)) = Some (AsyncThrows e) \<Longrightarrow>
   getComponent_then env d context = Rejected e"
  by (simp add: getComponent_then_def)

lemma getComponent_then_asyncData_rejects:
  "options_asyncData (comp_options (new_VueClass env d context)) = Some (AsyncReturns (Rejected e)) \<Longrightarrow>
   getComponent_then env d context = Pending"
  by (simp add: getComponent_then_def)

lemma getComponent_asyncData_rejects:
  assumes "getVueClass (plugin_imports env) s = (Fulfilled Vue, s')"
    and "component_import env path = Fulfilled object"
    and "options_asyncData (comp_options (new_VueClass env (unwrap_default object) context))
          = Some (AsyncReturns (Rejected e))"
  shows "getComponent env path context s = (Pending, s')"
  using assms by (simp add: getComponent_def getComponent_then_asyncData_rejects)

lemma render_asyncData_rejects:
  assumes "getVueClass (plugin_imports env) s = (Fulfilled Vue, s')"
    and "component_import env path = Fulfilled object"
    and "options_asyncData (comp_options
            (new_VueClass env (unwrap_default object) (make_context state opts)))
          = Some (AsyncReturns (Rejected e))"
  shows "renderToString env path state opts s = (Pending, s')"
    and "renderToStream env path state opts s = (Pending, s')"
  using getComponent_asyncData_rejects [OF assms]
  by (simp_all add: renderToString_def renderToStream_def)

text \<open>
  C6 fails on the code. For a component whose \<^verbatim>\<open>asyncData\<close> promise rejects, the
  promise \<^verbatim>\<open>getComponent\<close> builds is never settled, so neither \<^verbatim>\<open>renderToString\<close>
  nor \<^verbatim>\<open>renderToStream\<close> rejects: both stay pending.
\<close>

theorem rejected_asyncData_leaves_render_pending:
  "fst (renderToString example_env ''rejecting.vue'' None None example_state) = Pending
   \<and> fst (renderToStream example_env ''rejecting.vue'' None None example_state) = Pending"
  by (simp add: example_state_eq renderToString_def renderToStream_def example_defs renderer_defs)

subsection \<open>The render context\<close>

text \<open>
  C8 fails on the code. With an \<^verbatim>\<open>options\<close> argument that has no \<^verbatim>\<open>url\<close>, the
  context's \<^verbatim>\<open>url\<close> is \<^verbatim>\<open>undefined\<close> and not \<^verbatim>\<open>'/'\<close>. Without an \<^verbatim>\<open>options\<close>
  argument it is \<^verbatim>\<open>'/'\<close>, and without a state the context's state is the empty
  mapping.
\<close>

theorem make_context_url_undefined:
  "ctx_url (make_context None (Some \<lparr> url = None, plain = True \<rparr>)) = None
   \<and> ctx_url (make_context None None) = Some ''/''
   \<and> ctx_state (make_context None None) = Map.empty"
  by (simp add: make_context_def)

subsection \<open>The order of installation\<close>

text \<open>
  C7, as the code has it. A call made while \<^verbatim>\<open>this.Vue\<close> is unset hands the
  loaded plugin values to \<^verbatim>\<open>Vue.use\<close> in configured order before it returns. It
  imports the string entries together and, in whatever order the imports are
  fulfilled, then hands the imported modules to \<^verbatim>\<open>Vue.use\<close> in the configured
  order of their paths: \<^verbatim>\<open>Promise.all\<close> returns the modules by position, not by
  time.
\<close>

theorem getVueClass_install_order:
  assumes "this_Vue r = None" and "distinct order"
    and "set order = {..<length (string_entries (plugins (options r)))}"
  shows "vue_uses (snd (snd (getVueClass_begin (r, pr)))) =
       vue_uses pr @ map installable (value_entries (plugins (options r)))
   \<and> getVueClass (map (\<lambda>i. Fulfil i (mods i)) order) (r, pr) =
     (Fulfilled Vue,
      (r\<lparr>this_Vue := Some Vue\<rparr>,
       pr\<lparr>vue_uses := vue_uses pr
            @ map installable (value_entries (plugins (options r)))
            @ map (\<lambda>i. installable (mods i)) [0..<length (string_entries (plugins (options r)))]\<rparr>))"
proof (cases "string_entries (plugins (options r)) = []")
  case True
  with assms show ?thesis
    by (simp add: getVueClass_def getVueClass_begin_def plugins_forEach_eq)
next
  case False
  have "promise_all (length (string_entries (plugins (options r)))) (map (\<lambda>i. Fulfil i (mods i)) order)
      = Fulfilled (map mods [0..<length (string_entries (plugins (options r)))])"
    using assms(2,3) by (rule promise_all_any_order)
  with False assms(1) show ?thesis
    by (simp add: getVueClass_def getVueClass_begin_def getVueClass_then_def plugins_forEach_eq comp_def)
qed

text \<open>
  The theorem at the configuration \<^verbatim>\<open>['a', plugin, 'b']\<close>, the import of \<^verbatim>\<open>'b'\<close>
  fulfilled before the import of \<^verbatim>\<open>'a'\<close>.
\<close>

theorem getVueClass_install_order_witness:
  "getVueClass [Fulfil 1 example_module_b, Fulfil 0 example_module_a]
      (\<lparr> options = assign_options (Some (example_params
            [PluginPath ''a'', PluginValue example_plugin, PluginPath ''b''])),
         this_Vue = None, emitted = [] \<rparr>, example_process)
   = (Fulfilled Vue,
      \<lparr> options = assign_options (Some (example_params
            [PluginPath ''a'', PluginValue example_plugin, PluginPath ''b''])),
         this_Vue = Some Vue, emitted = [] \<rparr>,
      \<lparr> arrays = (\<lambda>a. []),
        vue_uses = [example_plugin, example_module_a, JsObj 4 None True] \<rparr>)"
  using getVueClass_install_order [where r = "\<lparr> options = assign_options (Some (example_params
            [PluginPath ''a'', PluginValue example_plugin, PluginPath ''b''])),
         this_Vue = None, emitted = [] \<rparr>" and order = "[1, 0]"
      and mods = "\<lambda>i. if i = 0 then example_module_a else example_module_b" and pr = example_process]
  by (auto simp: assign_options_def example_params_def example_process_def installable_def
      example_plugin_def example_module_a_def example_module_b_def upt_rec numeral_2_eq_2 lessThan_Suc)

text \<open>
  C7 as stated fails: with the string entries \<^verbatim>\<open>'a'\<close> and \<^verbatim>\<open>'b'\<close> and the import
  of \<^verbatim>\<open>'b'\<close> fulfilled first, the module of \<^verbatim>\<open>'a'\<close> is installed first.
\<close>

theorem installs_follow_configuration_not_completion:
  "vue_uses (snd (snd (getVueClass [Fulfil 1 example_module_b, Fulfil 0 example_module_a]
      (new_Renderer example_load (Some (example_params [PluginPath ''a'', PluginPath ''b'']))
         example_process))))
     = [installable example_module_a, installable example_module_b]
   \<and> vue_uses (snd (snd (getVueClass [Fulfil 1 example_module_b, Fulfil 0 example_module_a]
      (new_Renderer example_load (Some (example_params [PluginPath ''a'', PluginPath ''b'']))
         example_process))))
     \<noteq> [installable example_module_b, installable example_module_a]"
  by (simp add: example_defs renderer_defs)

subsection \<open>What changes the options\<close>

lemma untouched_refl: "options_untouched s s"
  by (simp add: options_untouched_def)

lemma untouched_trans:
  "options_untouched s s' \<Longrightarrow> options_untouched s' s'' \<Longrightarrow> options_untouched s s''"
  by (simp add: options_untouched_def)

lemma getVueClass_begin_untouched: "options_untouched s (snd (getVueClass_begin s))"
  by (cases s)
    (auto simp: options_untouched_def getVueClass_begin_def Let_def split: option.splits prod.splits)

lemma getVueClass_then_untouched: "options_untouched s (getVueClass_then mods s)"
  by (cases s) (simp add: options_untouched_def getVueClass_then_def)

lemma getVueClass_untouched: "options_untouched s (snd (getVueClass settled s))"
proof -
  obtain c s' where started: "getVueClass_begin s = (c, s')"
    by (metis surj_pair)
  with getVueClass_begin_untouched [of s] have s': "options_untouched s s'" by simp
  show ?thesis
  proof (cases c)
    case None
    with started s' untouched_trans [OF s' getVueClass_then_untouched] show ?thesis
      by (auto simp: getVueClass_def split: outcome.splits)
  next
    case (Some a)
    with started s' show ?thesis by (simp add: getVueClass_def)
  qed
qed

lemma run_steps_untouched: "options_untouched s (run_steps steps s)"
proof (induction steps s rule: run_steps.induct)
  case (1 s)
  show ?case by (simp add: untouched_refl)
next
  case (2 steps s)
  from untouched_trans [OF getVueClass_begin_untouched 2] show ?case by simp
next
  case (3 mods steps s)
  from untouched_trans [OF getVueClass_then_untouched 3] show ?case by simp
qed

lemma getComponent_untouched: "options_untouched s (snd (getComponent env path context s))"
  using getVueClass_untouched [of s "plugin_imports env"]
  by (auto simp: getComponent_def Let_def split: prod.splits)

lemma renderToString_untouched:
  "options_untouched s (snd (renderToString env path state opts s))"
  using getComponent_untouched [of s env path "make_context state opts"]
  by (auto simp: renderToString_def Let_def split: prod.splits)

lemma renderToStream_untouched:
  "options_untouched s (snd (renderToStream env path state opts s))"
  using getComponent_untouched [of s env path "make_context state opts"]
  by (auto simp: renderToStream_def Let_def split: prod.splits)

lemma renderToStream_run_untouched:
  "options_untouched s (snd (renderToStream_run env path state opts s))"
  using renderToStream_untouched [of s env path state opts]
  by (auto simp: renderToStream_run_def options_untouched_def bodyStream_events_eq
      split: prod.splits outcome.splits)

text \<open>
  C9, as the code has it. \<^verbatim>\<open>getVueClass\<close> (one call, or any number of them
  interleaved with their callbacks), \<^verbatim>\<open>getComponent\<close>, \<^verbatim>\<open>renderToString\<close> and
  \<^verbatim>\<open>renderToStream\<close> with its body stream leave the options object and every
  array as they are. \<^verbatim>\<open>init\<close> leaves the properties of the options object as they
  are and appends the string entries of \<^verbatim>\<open>plugins\<close> to the array \<^verbatim>\<open>preCompile\<close>
  refers to, every time it runs.
\<close>

theorem only_init_changes_preCompile:
  "options_untouched s (snd (getVueClass settled s))
   \<and> options_untouched s (run_steps steps s)
   \<and> options_untouched s (snd (getComponent env path context s))
   \<and> options_untouched s (snd (renderToString env path state opts s))
   \<and> options_untouched s (snd (renderToStream_run env path state opts s))
   \<and> options (fst (init load s)) = options (fst s)
   \<and> arrays (snd (init load s)) =
       (arrays (snd s))(preCompile (options (fst s)) :=
          arrays (snd s) (preCompile (options (fst s))) @ string_entries (plugins (options (fst s))))"
proof (intro conjI)
  show "options (fst (init load s)) = options (fst s)"
    by (cases s) (simp add: init_def init_settle_def Let_def split: outcome.splits)
  show "arrays (snd (init load s)) =
       (arrays (snd s))(preCompile (options (fst s)) :=
          arrays (snd s) (preCompile (options (fst s))) @ string_entries (plugins (options (fst s))))"
    by (cases s) (simp add: init_def init_push_def needCompiledPlugin_eq Let_def)
qed (rule getVueClass_untouched run_steps_untouched getComponent_untouched
      renderToString_untouched renderToStream_run_untouched)+

text \<open>
  The theorem at a render call on a Renderer without plugins, and at \<^verbatim>\<open>init\<close> on
  a Renderer with the string entry \<^verbatim>\<open>'p'\<close>.
\<close>

theorem only_init_changes_preCompile_witness:
  "options_untouched example_state (snd (renderToString example_env ''static.vue'' None None example_state))
   \<and> arrays (snd (init example_load
        (\<lparr> options = assign_options (Some (example_params [PluginPath ''p''])), this_Vue = None,
           emitted = [] \<rparr>, example_process))) default_preCompile = [''p'']"
  using only_init_changes_preCompile [where s = example_state and env = example_env
      and path = "''static.vue''" and state = None and opts = None]
    only_init_changes_preCompile [where load = example_load
      and s = "(\<lparr> options = assign_options (Some (example_params [PluginPath ''p''])), this_Vue = None,
           emitted = [] \<rparr>, example_process)"]
  by (simp add: assign_options_def example_params_def example_process_def defaultRendererOptions_def)

text \<open>
  C9 as stated fails: after the construction of a Renderer with the string entry
  \<^verbatim>\<open>'p'\<close> its \<^verbatim>\<open>preCompile\<close> array is \<^verbatim>\<open>['p']\<close>; a call of \<^verbatim>\<open>init\<close> makes it
  \<^verbatim>\<open>['p', 'p']\<close>. The array is the one of the module's defaults when the caller
  gave none, so the construction of a second Renderer with the string entry
  \<^verbatim>\<open>'q'\<close> changes it as well.
\<close>

theorem init_appends_to_preCompile_again:
  "arrays (snd (new_Renderer example_load (Some (example_params [PluginPath ''p''])) example_process))
      (preCompile (options (fst (new_Renderer example_load (Some (example_params [PluginPath ''p'']))
          example_process))))
     = [''p'']
   \<and> arrays (snd (init example_load
        (new_Renderer example_load (Some (example_params [PluginPath ''p''])) example_process)))
      (preCompile (options (fst (new_Renderer example_load (Some (example_params [PluginPath ''p'']))
          example_process))))
     = [''p'', ''p'']
   \<and> arrays (snd (new_Renderer example_load (Some (example_params [PluginPath ''q'']))
        (snd (new_Renderer example_load (Some (example_params [PluginPath ''p''])) example_process))))
      (preCompile (options (fst (new_Renderer example_load (Some (example_params [PluginPath ''p'']))
          example_process))))
     = [''p'', ''q'']"
  by (simp add: example_defs renderer_defs)

subsection \<open>Template assembly\<close>

text \<open>
  C10. The head and tail fragments depend on the metadata bundle only: two
  calls with the same bundle and any two states and any two globals mappings
  return the same fragments.
\<close>

theorem getTemplateHtml_ignores_state_and_globals:
  "getTemplateHtml m state1 globals1 = getTemplateHtml m state2 globals2"
  by (simp add: getTemplateHtml_def)

end
